theory Spec2Isabelle
  imports Complex_Main "HOL-Library.AList"
begin

section \<open>The cell filters of seqc (seqc/filter.py)\<close>

text \<open>
  The module filters the cells (rows) of a molecule count matrix in four stages
  (\<open>low_count\<close>, \<open>low_coverage\<close>, \<open>high_mitochondrial_rna\<close>, \<open>low_gene_abundance\<close>),
  each of which takes a boolean mask \<open>is_invalid\<close> (True: the cell is excluded) and returns
  a mask, and \<open>create_filtered_dense_count_matrix\<close> runs them in order and keeps a ledger
  of the cells and molecules that each stage removed.

  Conventions of the embedding:
  \<^item> a count matrix is the list of its rows, a row the list of its non-negative counts;
  \<^item> a mask is a \<open>bool list\<close> that lives in a store of arrays, and a stage takes and
    returns the address of a mask, so that \<open>return is_invalid\<close> (the same object) and
    \<open>is_invalid.copy()\<close> (a new object) differ;
  \<^item> every \<open>raise\<close> is a value \<open>Inl e\<close>, and the \<open>warnings.warn\<close> calls of the module
    are returned as a list;
  \<^item> numpy's float64 values are modelled by \<open>npfloat\<close>: the special values \<open>nan\<close>,
    \<open>inf\<close>, \<open>-inf\<close> are there, the finite values are real numbers and arithmetic on
    them is exact (neither rounding nor signed zeros are modelled);
  \<^item> the estimators of scikit-learn (the Gaussian mixtures, the linear regression) and
    the summary of pandas are parameters of the model, each of which may fail;
  \<^item> the calls are those with \<open>plot=False\<close>: the plotting code draws and returns the same mask.
\<close>

subsection \<open>Errors\<close>

datatype error =
    EmptyMatrixError
  | TypeError
  | ValueError
  | IndexError
  | LibraryError

subsection \<open>float64 values\<close>

datatype npfloat = Fin real | PInf | NInf | NaN

fun fneg :: "npfloat \<Rightarrow> npfloat" where
  "fneg (Fin a) = Fin (- a)"
| "fneg PInf = NInf"
| "fneg NInf = PInf"
| "fneg NaN = NaN"

fun fadd :: "npfloat \<Rightarrow> npfloat \<Rightarrow> npfloat" where
  "fadd (Fin a) (Fin b) = Fin (a + b)"
| "fadd NaN y = NaN"
| "fadd x NaN = NaN"
| "fadd PInf NInf = NaN"
| "fadd NInf PInf = NaN"
| "fadd PInf y = PInf"
| "fadd x PInf = PInf"
| "fadd NInf y = NInf"
| "fadd x NInf = NInf"

definition fsub :: "npfloat \<Rightarrow> npfloat \<Rightarrow> npfloat" where
  "fsub x y = fadd x (fneg y)"

text \<open>numpy divides by zero without raising: \<open>0/0\<close> is \<open>nan\<close> and \<open>x/0\<close> is \<open>\<plusminus>inf\<close>.\<close>

fun fdiv :: "npfloat \<Rightarrow> npfloat \<Rightarrow> npfloat" where
  "fdiv (Fin a) (Fin b) =
     (if b = 0 then (if a = 0 then NaN else if 0 < a then PInf else NInf)
      else Fin (a / b))"
| "fdiv NaN y = NaN"
| "fdiv x NaN = NaN"
| "fdiv (Fin a) y = Fin 0"
| "fdiv PInf (Fin b) = (if 0 \<le> b then PInf else NInf)"
| "fdiv NInf (Fin b) = (if 0 \<le> b then NInf else PInf)"
| "fdiv x y = NaN"

text \<open>Comparisons with \<open>nan\<close> are False.\<close>

fun flt :: "npfloat \<Rightarrow> npfloat \<Rightarrow> bool" where
  "flt (Fin a) (Fin b) = (a < b)"
| "flt NaN y = False"
| "flt x NaN = False"
| "flt x NInf = False"
| "flt PInf y = False"
| "flt NInf y = True"
| "flt x PInf = True"

definition fgt :: "npfloat \<Rightarrow> npfloat \<Rightarrow> bool" where
  "fgt x y = flt y x"

definition fle :: "npfloat \<Rightarrow> npfloat \<Rightarrow> bool" where
  "fle x y = (x \<noteq> NaN \<and> y \<noteq> NaN \<and> \<not> flt y x)"

definition of_count :: "nat \<Rightarrow> npfloat" where
  "of_count n = Fin (real n)"

text \<open>\<open>np.log10\<close> of a count: \<open>log10(0)\<close> is \<open>-inf\<close>.\<close>

definition np_log10 :: "nat \<Rightarrow> npfloat" where
  "np_log10 n = (if n = 0 then NInf else Fin (log 10 (real n)))"

subsection \<open>numpy and pandas operations on arrays\<close>

type_synonym mask = "bool list"
type_synonym matrix = "nat list list"

text \<open>\<open>np.cumsum\<close>.\<close>

fun cumsum_from :: "npfloat \<Rightarrow> npfloat list \<Rightarrow> npfloat list" where
  "cumsum_from acc [] = []"
| "cumsum_from acc (x # xs) = fadd acc x # cumsum_from (fadd acc x) xs"

definition cumsum :: "npfloat list \<Rightarrow> npfloat list" where
  "cumsum xs = cumsum_from (Fin 0) xs"

definition fsum :: "npfloat list \<Rightarrow> npfloat" where
  "fsum xs = foldl fadd (Fin 0) xs"

text \<open>
  \<open>pd.Series(xs).rolling(w).mean()\<close>: as long as xs, \<open>nan\<close> at the first \<open>w - 1\<close>
  positions, then the mean of the last w values (\<open>nan\<close> when one of them is).
\<close>

definition rolling_mean :: "nat \<Rightarrow> npfloat list \<Rightarrow> npfloat list" where
  "rolling_mean w xs =
     map (\<lambda>i. if i + 1 < w then NaN
              else fdiv (fsum (take w (drop (i + 1 - w) xs))) (Fin (real w)))
         [0..<length xs]"

text \<open>\<open>np.diff\<close>: the differences of neighbours, empty for fewer than two values.\<close>

fun np_diff :: "npfloat list \<Rightarrow> npfloat list" where
  "np_diff (x # y # xs) = fsub y x # np_diff (y # xs)"
| "np_diff xs = []"

text \<open>\<open>np.where(np.abs(d) == 0)[0]\<close>: the positions of the zeros of d, ascending.\<close>

definition where_zero :: "npfloat list \<Rightarrow> nat list" where
  "where_zero d = filter (\<lambda>i. d ! i = Fin 0) [0..<length d]"

text \<open>\<open>np.min\<close> raises ValueError on an empty array.\<close>

fun np_min :: "nat list \<Rightarrow> error + nat" where
  "np_min [] = Inl ValueError"
| "np_min (x # xs) = Inr (fold min xs x)"

text \<open>
  \<open>m.tocsr()[~is_invalid, :]\<close>: the rows of the valid cells. The boolean index must be as
  long as the matrix has rows.
\<close>

definition valid_rows :: "'a list \<Rightarrow> mask \<Rightarrow> error + 'a list" where
  "valid_rows m is_invalid =
     (if length m \<noteq> length is_invalid then Inl IndexError
      else Inr (map fst (filter (\<lambda>(row, inv). \<not> inv) (zip m is_invalid))))"

text \<open>\<open>np.where(~is_invalid)[0]\<close>: the positions of the valid cells.\<close>

definition where_valid :: "mask \<Rightarrow> nat list" where
  "where_valid is_invalid = filter (\<lambda>i. \<not> is_invalid ! i) [0..<length is_invalid]"

text \<open>
  Indexing an array xs of length n with a boolean array: \<open>bool_index legacy n idx\<close> are
  the positions that \<open>xs[idx]\<close> selects. When idx is not as long as xs, numpy from 1.13 on
  raises IndexError;
  older releases (with a deprecation warning) take the positions of the True entries of
  idx, and raise IndexError when one of them is out of range. The flag \<open>legacy\<close> chooses
  the older behaviour.
\<close>

definition true_positions :: "bool list \<Rightarrow> nat list" where
  "true_positions idx = filter (\<lambda>i. idx ! i) [0..<length idx]"

definition bool_index :: "bool \<Rightarrow> nat \<Rightarrow> bool list \<Rightarrow> error + nat list" where
  "bool_index legacy n idx =
     (if length idx = n then Inr (true_positions idx)
      else if legacy \<and> (\<forall>i \<in> set (true_positions idx). i < n) then Inr (true_positions idx)
      else Inl IndexError)"

text \<open>Indexing an array with an array of positions: \<open>xs[ps]\<close>.\<close>

definition take_positions :: "'a list \<Rightarrow> nat list \<Rightarrow> error + 'a list" where
  "take_positions xs ps =
     (if \<forall>p \<in> set ps. p < length xs then Inr (map (\<lambda>p. xs ! p) ps) else Inl IndexError)"

text \<open>\<open>arr[ps] = True\<close> for an array of positions.\<close>

definition set_true :: "mask \<Rightarrow> nat list \<Rightarrow> error + mask" where
  "set_true arr ps =
     (if \<forall>p \<in> set ps. p < length arr then Inr (fold (\<lambda>p a. a[p := True]) ps arr)
      else Inl IndexError)"

subsection \<open>The store of masks\<close>

text \<open>
  A store is the list of the arrays allocated so far, and the address of an array is its
  position. \<open>copy\<close> allocates: it is the only way a stage gets a new array.
\<close>

type_synonym store = "mask list"

definition np_copy :: "store \<Rightarrow> nat \<Rightarrow> nat \<times> store" where
  "np_copy s r = (length s, s @ [s ! r])"

record stage_result =
  mask_ref :: nat
  store_after :: store
  warnings :: "string list"

definition count_true :: "mask \<Rightarrow> nat" where
  "count_true m = length (filter (\<lambda>b. b) m)"

subsection \<open>The libraries the module runs on\<close>

text \<open>
  \<^item> \<open>legacy_bool_index\<close>: the numpy release indexes with a boolean array of another
    length as releases before 1.13 do (see \<open>bool_index\<close>);
  \<^item> \<open>gmm_bic k X\<close>: \<open>g = GMM(n_components=k); g.fit(X); g.bic(X)\<close>;
  \<^item> \<open>gmm2_fit_predict X\<close>: the labels \<open>gmm2.fit_predict(X)\<close>, one for each sample, and
    the two entries of \<open>gmm2.means_\<close> after that call;
  \<^item> \<open>linreg x y\<close>: \<open>LinearRegression().fit(x, y).predict(x)\<close>, one value for each sample;
  \<^item> \<open>describe xs\<close>: \<open>pd.Series(xs).describe()\<close>.
  \<open>None\<close> is an exception raised by the library (scikit-learn rejects \<open>nan\<close> and
  \<open>inf\<close>, for one). A result of the wrong length counts as such a failure.
\<close>

record 'd library =
  legacy_bool_index :: bool
  gmm_bic :: "nat \<Rightarrow> npfloat list \<Rightarrow> npfloat option"
  gmm2_fit_predict :: "npfloat list \<Rightarrow> (nat list \<times> npfloat \<times> npfloat) option"
  linreg :: "npfloat list \<Rightarrow> npfloat list \<Rightarrow> npfloat list option"
  describe :: "nat list \<Rightarrow> 'd"

subsection \<open>low_count\<close>

definition low_count_warning :: string where
  "low_count_warning =
     ''Low count filter passed-through; too few cells to estimate inflection point.''"

text \<open>
  \<open>ms[idx]\<close> with \<open>idx = np.argsort(ms)[::-1]\<close> is ms in descending order.
  \<open>int(inflection_pt * .9)\<close> is \<open>9 * inflection_pt div 10\<close>. The \<open>except\<close> clause catches
  the ValueError of \<open>np.min\<close> on an empty array, and nothing else in the \<open>try\<close> block raises.
  \<open>is_invalid[ms < vcrit] = True\<close> indexes the mask of all cells with a boolean array that
  has one entry for each valid cell.
\<close>

definition second_difference :: "nat list \<Rightarrow> npfloat list" where
  "second_difference sorted_ms =
     (let norm_ms = map (\<lambda>x. fdiv (of_count x) (of_count (sum_list sorted_ms))) sorted_ms;
          cms = cumsum norm_ms;
          d1 = np_diff (drop 10 (rolling_mean 10 cms));
          d2 = np_diff (drop 10 (rolling_mean 10 d1))
      in d2)"

text \<open>
  The \<open>try\<close> block: the buffered inflection rank, \<open>None\<close> when \<open>np.min\<close> raised the
  ValueError that the \<open>except\<close> clause catches.
\<close>

definition inflection_point :: "nat list \<Rightarrow> nat option" where
  "inflection_point sorted_ms =
     (let d2 = second_difference sorted_ms
      in (case np_min (where_zero d2) of
            Inl e \<Rightarrow> None
          | Inr inflection_pt \<Rightarrow> Some (9 * inflection_pt div 10)))"

definition low_count ::
  "'d library \<Rightarrow> matrix \<Rightarrow> store \<Rightarrow> nat \<Rightarrow> error + stage_result" where
  "low_count lib molecules s is_invalid =
     (case valid_rows molecules (s ! is_invalid) of
        Inl e \<Rightarrow> Inl e
      | Inr rows \<Rightarrow>
          let ms = map sum_list rows;
              sorted_ms = rev (sort ms)
          in (case inflection_point sorted_ms of
                None \<Rightarrow>
                  Inr \<lparr>mask_ref = is_invalid, store_after = s,
                       warnings = [low_count_warning]\<rparr>
              | Some inflection_pt \<Rightarrow>
                  let vcrit = sorted_ms ! inflection_pt;
                      (copied, s1) = np_copy s is_invalid
                  in (case bool_index (legacy_bool_index lib) (length (s1 ! copied))
                             (map (\<lambda>m. m < vcrit) ms) of
                        Inl e \<Rightarrow> Inl e
                      | Inr ps \<Rightarrow>
                          (case set_true (s1 ! copied) ps of
                             Inl e \<Rightarrow> Inl e
                           | Inr marked \<Rightarrow>
                               Inr \<lparr>mask_ref = copied, store_after = s1[copied := marked],
                                    warnings = []\<rparr>))))"

subsection \<open>low_coverage\<close>

definition low_coverage_warning :: string where
  "low_coverage_warning =
     ''Low coverage filter passed-through; too few cells to calculate mixture model.''"

text \<open>
  \<open>np.argmin(gmm2.means_)\<close> on the two means: the position of the smaller one, the first
  on a tie, and the position of the first \<open>nan\<close> when there is one.
\<close>

definition argmin2 :: "npfloat \<Rightarrow> npfloat \<Rightarrow> nat" where
  "argmin2 mean0 mean1 =
     (if mean0 = NaN then 0 else if mean1 = NaN then 1 else if flt mean1 mean0 then 1 else 0)"

definition low_coverage ::
  "'d library \<Rightarrow> matrix \<Rightarrow> matrix \<Rightarrow> store \<Rightarrow> nat \<Rightarrow> error + stage_result" where
  "low_coverage lib molecules reads s is_invalid =
     (case valid_rows molecules (s ! is_invalid) of
        Inl e \<Rightarrow> Inl e
      | Inr mrows \<Rightarrow>
     (case valid_rows reads (s ! is_invalid) of
        Inl e \<Rightarrow> Inl e
      | Inr rrows \<Rightarrow>
          let ms = map sum_list mrows;
              rs = map sum_list rrows
          in if length ms < 10 \<or> length rs < 10
             then Inr \<lparr>mask_ref = is_invalid, store_after = s,
                       warnings = [low_coverage_warning]\<rparr>
             else
               let ratio = map2 (\<lambda>r m. fdiv (of_count r) (of_count m)) rs ms
               in (case gmm_bic lib 1 ratio of
                     None \<Rightarrow> Inl LibraryError
                   | Some bic1 \<Rightarrow>
                  (case gmm_bic lib 2 ratio of
                     None \<Rightarrow> Inl LibraryError
                   | Some bic2 \<Rightarrow>
                       if flt (fdiv bic2 bic1) (Fin (95 / 100))
                       then
                         (case gmm2_fit_predict lib ratio of
                            None \<Rightarrow> Inl LibraryError
                          | Some (res, mean0, mean1) \<Rightarrow>
                              if length res \<noteq> length ratio then Inl LibraryError
                              else
                                let failing =
                                      filter (\<lambda>i. res ! i = argmin2 mean0 mean1) [0..<length res];
                                    (copied, s1) = np_copy s is_invalid
                                in (case take_positions (where_valid (s1 ! copied)) failing of
                                      Inl e \<Rightarrow> Inl e
                                    | Inr ps \<Rightarrow>
                                   (case set_true (s1 ! copied) ps of
                                      Inl e \<Rightarrow> Inl e
                                    | Inr marked \<Rightarrow>
                                        Inr \<lparr>mask_ref = copied,
                                             store_after = s1[copied := marked],
                                             warnings = []\<rparr>)))
                       else Inr \<lparr>mask_ref = is_invalid, store_after = s, warnings = []\<rparr>))))"

subsection \<open>high_mitochondrial_rna\<close>

text \<open>\<open>x.startswith('MT-')\<close>.\<close>

definition startswith :: "string \<Rightarrow> string \<Rightarrow> bool" where
  "startswith x p = (take (length p) x = p)"

text \<open>\<open>row[:, keep]\<close>: the entries of a row in the columns that keep selects.\<close>

definition select_cols :: "'a list \<Rightarrow> bool list \<Rightarrow> 'a list" where
  "select_cols row keep = map fst (filter snd (zip row keep))"

text \<open>
  The boolean index \<open>mt_genes\<close> on the columns must be as long as the matrix has columns.
  \<open>np.where(~is_invalid)[0][failing]\<close> indexes the positions of the valid cells with a
  boolean array of the same length.
\<close>

definition high_mitochondrial_rna ::
  "'d library \<Rightarrow> matrix \<Rightarrow> string list \<Rightarrow> store \<Rightarrow> nat \<Rightarrow> npfloat
     \<Rightarrow> error + stage_result" where
  "high_mitochondrial_rna lib molecules gene_ids s is_invalid max_mt_content =
     (let mt_genes = map (\<lambda>x. startswith x ''MT-'') gene_ids
      in (case valid_rows molecules (s ! is_invalid) of
            Inl e \<Rightarrow> Inl e
          | Inr rows \<Rightarrow>
              if \<exists>row \<in> set molecules. length row \<noteq> length mt_genes then Inl IndexError
              else
                let mt_molecules = map (\<lambda>row. sum_list (select_cols row mt_genes)) rows;
                    ms = map sum_list rows;
                    ratios = map2 (\<lambda>mt m. fdiv (of_count mt) (of_count m)) mt_molecules ms;
                    failing = map (\<lambda>r. fgt r max_mt_content) ratios;
                    (copied, s1) = np_copy s is_invalid;
                    valid = where_valid (s1 ! copied)
                in (case bool_index (legacy_bool_index lib) (length valid) failing of
                      Inl e \<Rightarrow> Inl e
                    | Inr sel \<Rightarrow>
                   (case take_positions valid sel of
                      Inl e \<Rightarrow> Inl e
                    | Inr ps \<Rightarrow>
                   (case set_true (s1 ! copied) ps of
                      Inl e \<Rightarrow> Inl e
                    | Inr marked \<Rightarrow>
                        Inr \<lparr>mask_ref = copied, store_after = s1[copied := marked],
                             warnings = []\<rparr>)))))"

subsection \<open>low_gene_abundance\<close>

text \<open>\<open>getnnz(axis=1)\<close>: the number of non-zero entries of each row.\<close>

definition getnnz :: "nat list \<Rightarrow> nat" where
  "getnnz row = length (filter (\<lambda>c. c \<noteq> 0) row)"

definition low_gene_abundance ::
  "'d library \<Rightarrow> matrix \<Rightarrow> store \<Rightarrow> nat \<Rightarrow> error + stage_result" where
  "low_gene_abundance lib molecules s is_invalid =
     (case valid_rows molecules (s ! is_invalid) of
        Inl e \<Rightarrow> Inl e
      | Inr rows \<Rightarrow>
          let ms = map sum_list rows;
              genes = map getnnz rows;
              x = map np_log10 ms;
              y = map np_log10 genes
          in if \<not> (length x \<noteq> 0 \<or> length y \<noteq> 0)
             then Inr \<lparr>mask_ref = is_invalid, store_after = s, warnings = []\<rparr>
             else
               (case linreg lib x y of
                  None \<Rightarrow> Inl LibraryError
                | Some yhat \<Rightarrow>
                    if length yhat \<noteq> length y then Inl LibraryError
                    else
                      let residuals = map2 fsub yhat y;
                          failing = map (\<lambda>r. fgt r (Fin (15 / 100))) residuals;
                          (copied, s1) = np_copy s is_invalid;
                          valid = where_valid (s1 ! copied)
                      in (case bool_index (legacy_bool_index lib) (length valid) failing of
                            Inl e \<Rightarrow> Inl e
                          | Inr sel \<Rightarrow>
                         (case take_positions valid sel of
                            Inl e \<Rightarrow> Inl e
                          | Inr ps \<Rightarrow>
                         (case set_true (s1 ! copied) ps of
                            Inl e \<Rightarrow> Inl e
                          | Inr marked \<Rightarrow>
                              Inr \<lparr>mask_ref = copied, store_after = s1[copied := marked],
                                   warnings = []\<rparr>)))))"

subsection \<open>create_filtered_dense_count_matrix\<close>

text \<open>
  Modelled from the spec: the class \<open>SparseFrame\<close> (seqc/sparse_frame.py) is not among the
  sources. A frame is a count matrix \<open>data\<close> with the identifiers of its rows (\<open>index\<close>)
  and of its columns (\<open>columns\<close>), \<open>data\<close> has one row for each entry of \<open>index\<close> and
  one column for each entry of \<open>columns\<close>, and \<open>molecules.sum().sum()\<close> is the sum of all
  entries of the matrix.
\<close>

record sparse_frame =
  data :: matrix
  index :: "string list"
  columns :: "string list"

definition total_sum :: "matrix \<Rightarrow> nat" where
  "total_sum m = sum_list (map sum_list m)"

text \<open>The values that a caller may pass for \<open>max_mt_content\<close>.\<close>

datatype pyvalue = PyFloat npfloat | PyInt int | PyBool bool | PyStr string | PyNone

definition bind :: "error + 'a \<Rightarrow> ('a \<Rightarrow> error + 'b) \<Rightarrow> error + 'b" where
  "bind m f = (case m of Inl e \<Rightarrow> Inl e | Inr x \<Rightarrow> f x)"

text \<open>\<open>data_matrix[new_filter]\<close>: the rows that a boolean array of the same length selects.\<close>

definition bool_rows :: "'a list \<Rightarrow> bool list \<Rightarrow> error + 'a list" where
  "bool_rows m sel =
     (if length m \<noteq> length sel then Inl IndexError
      else Inr (map fst (filter snd (zip m sel))))"

definition additional_loss :: "mask \<Rightarrow> mask \<Rightarrow> matrix \<Rightarrow> error + int \<times> int" where
  "additional_loss new_filter old_filter data_matrix =
     (let new_cell_loss = int (count_true new_filter) - int (count_true old_filter)
      in bind (bool_rows data_matrix new_filter) (\<lambda>new_rows.
         bind (bool_rows data_matrix old_filter) (\<lambda>old_rows.
           let total_molecule_loss = int (total_sum new_rows);
               old_molecule_loss = int (total_sum old_rows);
               new_molecule_loss = total_molecule_loss - old_molecule_loss
           in Inr (new_cell_loss, new_molecule_loss))))"

text \<open>
  The four stages in their order (lines 312 to 335 of the source), from the mask
  \<open>np.zeros(n, np.bool)\<close> in an otherwise empty store. The ledgers are OrderedDicts: an
  association list in insertion order, \<open>d[k] = v\<close> being \<open>AList.update k v d\<close>.
\<close>

record filters_result =
  gene_invalid :: mask
  molecules_lost_ledger :: "(string \<times> int) list"
  cells_lost_ledger :: "(string \<times> int) list"
  emitted :: "string list"

definition run_filters ::
  "'d library \<Rightarrow> matrix \<Rightarrow> string list \<Rightarrow> matrix \<Rightarrow> npfloat \<Rightarrow> bool
     \<Rightarrow> error + filters_result" where
  "run_filters lib molecules_data molecules_columns reads_data max_mt_content
       filter_mitochondrial_rna =
     (let cells_lost0 = [];
          molecules_lost0 = [];
          s0 = [replicate (length molecules_data) False];
          is_invalid = 0
      in bind (low_count lib molecules_data s0 is_invalid) (\<lambda>r1.
         let count_invalid = mask_ref r1; s1 = store_after r1
         in bind (additional_loss (s1 ! count_invalid) (s1 ! is_invalid) molecules_data)
              (\<lambda>(c1, m1).
         let cells_lost1 = AList.update ''low_count'' c1 cells_lost0;
             molecules_lost1 = AList.update ''low_count'' m1 molecules_lost0
         in bind (low_coverage lib molecules_data reads_data s1 count_invalid) (\<lambda>r2.
         let cov_invalid = mask_ref r2; s2 = store_after r2
         in bind (additional_loss (s2 ! cov_invalid) (s2 ! count_invalid) molecules_data)
              (\<lambda>(c2, m2).
         let cells_lost2 = AList.update ''low_coverage'' c2 cells_lost1;
             molecules_lost2 = AList.update ''low_coverage'' m2 molecules_lost1
         in bind
              (if filter_mitochondrial_rna
               then bind (high_mitochondrial_rna lib molecules_data molecules_columns s2
                            cov_invalid max_mt_content) (\<lambda>r3.
                    let mt_invalid = mask_ref r3; s3 = store_after r3
                    in bind (additional_loss (s3 ! mt_invalid) (s3 ! cov_invalid)
                               molecules_data) (\<lambda>(c3, m3).
                       Inr (mt_invalid, s3, warnings r3,
                            AList.update ''high_mt'' c3 cells_lost2,
                            AList.update ''high_mt'' m3 molecules_lost2)))
               else Inr (cov_invalid, s2, [], cells_lost2, molecules_lost2))
              (\<lambda>(mt_invalid, s3, w3, cells_lost3, molecules_lost3).
         bind (low_gene_abundance lib molecules_data s3 mt_invalid) (\<lambda>r4.
         let gene_inv = mask_ref r4; s4 = store_after r4
         in bind (additional_loss (s4 ! gene_inv) (s4 ! mt_invalid) molecules_data)
              (\<lambda>(c4, m4).
         Inr \<lparr>gene_invalid = s4 ! gene_inv,
              molecules_lost_ledger = AList.update ''low_gene_detection'' m4 molecules_lost3,
              cells_lost_ledger = AList.update ''low_gene_detection'' c4 cells_lost3,
              emitted = warnings r1 @ warnings r2 @ w3 @ warnings r4\<rparr>))))))))"

record 'd filtered =
  dense :: matrix
  dense_index :: "string list"
  dense_columns :: "string list"
  total_molecules :: nat
  molecules_lost :: "(string \<times> int) list"
  cells_lost :: "(string \<times> int) list"
  cell_description :: 'd

definition create_filtered_dense_count_matrix ::
  "'d library \<Rightarrow> sparse_frame \<Rightarrow> sparse_frame \<Rightarrow> pyvalue \<Rightarrow> bool
     \<Rightarrow> error + 'd filtered" where
  "create_filtered_dense_count_matrix lib molecules reads max_mt_content
       filter_mitochondrial_rna =
     (if total_sum (data molecules) = 0 then Inl EmptyMatrixError
      else
        (case max_mt_content of
           PyFloat t \<Rightarrow>
             if \<not> (fle (Fin 0) t \<and> fle t (Fin 1)) then Inl ValueError
             else
               let molecules_data = data molecules;
                   reads_data = data reads;
                   molecules_columns = columns molecules
               in bind (run_filters lib molecules_data molecules_columns reads_data t
                          filter_mitochondrial_rna) (\<lambda>fr.
                  bind (valid_rows molecules_data (gene_invalid fr)) (\<lambda>rows.
                  let nonzero_gene_count =
                        map (\<lambda>j. \<exists>row \<in> set rows. j < length row \<and> row ! j \<noteq> 0)
                          [0..<length molecules_columns];
                      dense_rows = map (\<lambda>row. select_cols row nonzero_gene_count) rows
                  in bind (valid_rows (index molecules) (gene_invalid fr)) (\<lambda>ids.
                     Inr \<lparr>dense = dense_rows,
                          dense_index = ids,
                          dense_columns = select_cols molecules_columns nonzero_gene_count,
                          total_molecules = total_sum molecules_data,
                          molecules_lost = molecules_lost_ledger fr,
                          cells_lost = cells_lost_ledger fr,
                          cell_description = describe lib (map sum_list dense_rows)\<rparr>)))
         | _ \<Rightarrow> Inl TypeError))"

section \<open>Properties of the filters\<close>

subsection \<open>Notions used in the statements\<close>

text \<open>The excluded cells of \<open>new\<close> include those of \<open>old\<close>.\<close>

definition mask_superset :: "mask \<Rightarrow> mask \<Rightarrow> bool" where
  "mask_superset new old =
     (length new = length old \<and> (\<forall>i < length old. old ! i \<longrightarrow> new ! i))"

text \<open>Every array of the store s is still there in \<open>s'\<close>, with the same entries.\<close>

definition keeps_arrays :: "store \<Rightarrow> store \<Rightarrow> bool" where
  "keeps_arrays s s' = (length s \<le> length s' \<and> (\<forall>a < length s. s' ! a = s ! a))"

text \<open>
  What every stage guarantees about the mask it returns: the arrays of the caller are as
  they were; the result is the input object in an unchanged store, or one new array; and
  the result excludes the cells that the input excludes.
\<close>

definition stage_ok :: "store \<Rightarrow> nat \<Rightarrow> stage_result \<Rightarrow> bool" where
  "stage_ok s r res =
     (keeps_arrays s (store_after res) \<and> mask_ref res < length (store_after res) \<and>
      (mask_ref res = r \<and> store_after res = s \<or>
       mask_ref res = length s \<and> length (store_after res) = Suc (length s)) \<and>
      mask_superset (store_after res ! mask_ref res) (s ! r))"


text \<open>The errors that come out of a stage: a bad index, or a failure of a library.\<close>

definition stage_error :: "error \<Rightarrow> bool" where
  "stage_error e = (e = IndexError \<or> e = LibraryError)"

text \<open>\<open>max_mt_content\<close> is a float in the interval from 0 to 1.\<close>

definition is_float_in_unit_interval :: "pyvalue \<Rightarrow> bool" where
  "is_float_in_unit_interval v =
     (case v of PyFloat t \<Rightarrow> fle (Fin 0) t \<and> fle t (Fin 1) | _ \<Rightarrow> False)"

subsection \<open>Example inputs\<close>

text \<open>
  A library for the examples: the mixture with one component has BIC 100 and the one with
  two components BIC 90; the labels of the cells alternate 0, 1, 0, 1, ... and the means
  are 3 and 1, so that component 1 is the one with the smaller mean; the regression
  predicts the observed value for every cell but the first, where it predicts 1 more.
\<close>

fun alternating_labels :: "'a list \<Rightarrow> nat \<Rightarrow> nat list" where
  "alternating_labels [] c = []"
| "alternating_labels (x # xs) c = c # alternating_labels xs (1 - c)"

definition example_library :: "unit library" where
  "example_library =
     \<lparr>legacy_bool_index = False,
      gmm_bic = (\<lambda>k X. Some (if k = 1 then Fin 100 else Fin 90)),
      gmm2_fit_predict = (\<lambda>X. Some (alternating_labels X 0, Fin 3, Fin 1)),
      linreg = (\<lambda>x y. Some (map2 fadd y (Fin 1 # replicate (length y - 1) (Fin 0)))),
      describe = (\<lambda>xs. ())\<rparr>"

text \<open>
  26 cells with one gene: one cell with 4 molecules, three with 2 and 22 with 1. All
  fractions are multiples of 1/32, and ranks 4 to 23 hold the same count.
\<close>

definition example_counts :: "nat list" where
  "example_counts = [4, 2, 2, 2] @ replicate 22 1"

definition example_molecules :: matrix where
  "example_molecules = map (\<lambda>c. [c]) example_counts"



text \<open>
  Four cells and two genes, one of them mitochondrial: the fractions are 1/5, 1/4,
  0/0 and, for a cell that is excluded already, 1.
\<close>

definition mt_genes_example :: "string list" where
  "mt_genes_example = [''MT-ND1'', ''ACTB'']"

definition mt_molecules_example :: matrix where
  "mt_molecules_example = [[1, 4], [1, 3], [0, 0], [2, 0]]"

text \<open>Eleven cells with one molecule and two reads each.\<close>

definition coverage_molecules_example :: matrix where
  "coverage_molecules_example = replicate 11 [1]"

definition coverage_reads_example :: matrix where
  "coverage_reads_example = replicate 11 [2]"

definition gene_molecules_example :: matrix where
  "gene_molecules_example = [[1, 1], [2, 0], [0, 3]]"

text \<open>Frames for \<open>create_filtered_dense_count_matrix\<close>.\<close>

definition molecules_frame_example :: sparse_frame where
  "molecules_frame_example =
     \<lparr>data = [[1, 4], [1, 3], [0, 5], [0, 2]],
      index = [''cell0'', ''cell1'', ''cell2'', ''cell3''],
      columns = [''MT-ND1'', ''ACTB'']\<rparr>"

definition reads_frame_example :: sparse_frame where
  "reads_frame_example =
     \<lparr>data = [[2, 8], [2, 6], [0, 10], [0, 4]],
      index = [''cell0'', ''cell1'', ''cell2'', ''cell3''],
      columns = [''MT-ND1'', ''ACTB'']\<rparr>"

definition empty_frame_example :: sparse_frame where
  "empty_frame_example =
     \<lparr>data = [[0, 0], [0, 0]],
      index = [''cell0'', ''cell1''],
      columns = [''MT-ND1'', ''ACTB'']\<rparr>"

subsection \<open>Auxiliary facts\<close>

lemma fold_set_true_length: "length (fold (\<lambda>p a. a[p := True]) ps arr) = length arr"
  by (induction ps arbitrary: arr) auto

lemma fold_set_true_nth:
  "i < length arr \<Longrightarrow> fold (\<lambda>p a. a[p := True]) ps arr ! i = (arr ! i \<or> i \<in> set ps)"
proof (induction ps arbitrary: arr)
  case Nil
  then show ?case by simp
next
  case (Cons p ps)
  have "fold (\<lambda>p a. a[p := True]) (p # ps) arr ! i
      = fold (\<lambda>p a. a[p := True]) ps (arr[p := True]) ! i"
    by simp
  also have "\<dots> = (arr[p := True] ! i \<or> i \<in> set ps)"
    using Cons.prems by (intro Cons.IH) simp
  also have "\<dots> = (arr ! i \<or> i \<in> set (p # ps))"
    using Cons.prems by (cases "i = p") (auto simp: nth_list_update)
  finally show ?case .
qed

lemma set_true_length: "set_true arr ps = Inr m \<Longrightarrow> length m = length arr"
  by (auto simp: set_true_def fold_set_true_length split: if_splits)

lemma set_true_nth:
  "set_true arr ps = Inr m \<Longrightarrow> i < length arr \<Longrightarrow> m ! i = (arr ! i \<or> i \<in> set ps)"
  by (auto simp: set_true_def fold_set_true_nth split: if_splits)

lemma set_true_superset: "set_true arr ps = Inr m \<Longrightarrow> mask_superset m arr"
  by (simp add: mask_superset_def set_true_length set_true_nth)

lemma mask_superset_refl: "mask_superset m m"
  by (simp add: mask_superset_def)

lemma keeps_arrays_refl: "keeps_arrays s s"
  by (simp add: keeps_arrays_def)

text \<open>The common tail of the stages: copy, mark, return the copy.\<close>

lemma copy_and_mark:
  assumes "np_copy s r = (c, s1)" and "set_true (s1 ! c) ps = Inr marked" and "r < length s"
  shows "c = length s" and "keeps_arrays s (s1[c := marked])"
    and "s1[c := marked] ! c = marked" and "mask_superset marked (s ! r)"
    and "\<And>i. i < length (s ! r) \<Longrightarrow> marked ! i = ((s ! r) ! i \<or> i \<in> set ps)"
    and "c < length (s1[c := marked])"
    and "length (s1[c := marked]) = Suc (length s)"
proof -
  from assms(1) have c: "c = length s" and s1: "s1 = s @ [s ! r]"
    by (auto simp: np_copy_def)
  show "c = length s" by (rule c)
  show "keeps_arrays s (s1[c := marked])"
    by (simp add: keeps_arrays_def c s1 nth_append)
  show "s1[c := marked] ! c = marked"
    by (simp add: c s1)
  from assms(2) have st: "set_true (s ! r) ps = Inr marked"
    by (simp add: c s1)
  show "mask_superset marked (s ! r)"
    by (rule set_true_superset [OF st])
  show "\<And>i. i < length (s ! r) \<Longrightarrow> marked ! i = ((s ! r) ! i \<or> i \<in> set ps)"
    by (rule set_true_nth [OF st])
  show "c < length (s1[c := marked])"
    by (simp add: c s1)
  show "length (s1[c := marked]) = Suc (length s)"
    by (simp add: s1)
qed

lemma stage_ok_same: "r < length s \<Longrightarrow> stage_ok s r \<lparr>mask_ref = r, store_after = s, warnings = w\<rparr>"
  by (simp add: stage_ok_def keeps_arrays_refl mask_superset_refl)

lemma stage_ok_copy:
  assumes "np_copy s r = (c, s1)" and "set_true (s1 ! c) ps = Inr marked" and "r < length s"
  shows "stage_ok s r \<lparr>mask_ref = c, store_after = s1[c := marked], warnings = w\<rparr>"
  using copy_and_mark [OF assms] by (simp add: stage_ok_def)

lemma low_count_ok:
  assumes "low_count lib molecules s r = Inr res" and "r < length s"
  shows "stage_ok s r res"
  using assms
  by (auto simp: low_count_def Let_def stage_ok_same stage_ok_copy
      split: sum.splits option.splits prod.splits)

lemma low_coverage_ok:
  assumes "low_coverage lib molecules reads s r = Inr res" and "r < length s"
  shows "stage_ok s r res"
  using assms
  by (auto simp: low_coverage_def Let_def stage_ok_same stage_ok_copy
      split: sum.splits option.splits prod.splits if_splits)

lemma high_mitochondrial_rna_ok:
  assumes "high_mitochondrial_rna lib molecules gene_ids s r t = Inr res" and "r < length s"
  shows "stage_ok s r res"
  using assms
  by (auto simp: high_mitochondrial_rna_def Let_def stage_ok_same stage_ok_copy
      split: sum.splits option.splits prod.splits if_splits)

lemma low_gene_abundance_ok:
  assumes "low_gene_abundance lib molecules s r = Inr res" and "r < length s"
  shows "stage_ok s r res"
  using assms
  by (auto simp: low_gene_abundance_def Let_def stage_ok_same stage_ok_copy
      split: sum.splits option.splits prod.splits if_splits)

lemma zip_conv_nth: "length xs = length ys \<Longrightarrow> zip xs ys = map (\<lambda>i. (xs ! i, ys ! i)) [0..<length ys]"
  by (rule nth_equalityI) auto

lemma valid_rows_conv:
  assumes "length m = length msk"
  shows "valid_rows m msk = Inr (map ((!) m) (where_valid msk))"
proof -
  have "map fst (filter (\<lambda>(row, inv). \<not> inv) (zip m msk))
      = map fst (filter (\<lambda>(row, inv). \<not> inv) (map (\<lambda>i. (m ! i, msk ! i)) [0..<length msk]))"
    using assms by (simp add: zip_conv_nth)
  also have "\<dots> = map ((!) m) (filter (\<lambda>i. \<not> msk ! i) [0..<length msk])"
    by (simp add: filter_map comp_def)
  finally show ?thesis
    using assms by (simp add: valid_rows_def where_valid_def)
qed




lemma where_valid_all_valid: "where_valid (replicate n False) = [0..<n]"
  by (simp add: where_valid_def)







lemma length_cumsum_from: "length (cumsum_from acc xs) = length xs"
  by (induction xs arbitrary: acc) auto

lemma length_np_diff: "length (np_diff xs) = length xs - 1"
  by (induction xs rule: np_diff.induct) auto

lemma length_rolling_mean: "length (rolling_mean w xs) = length xs"
  by (simp add: rolling_mean_def)

lemma length_second_difference: "length (second_difference xs) = length xs - 22"
  by (simp add: second_difference_def Let_def length_np_diff length_rolling_mean
      cumsum_def length_cumsum_from)

lemma where_zero_empty: "Fin 0 \<notin> set d \<Longrightarrow> where_zero d = []"
  unfolding where_zero_def filter_empty_conv by (metis atLeastLessThan_iff nth_mem set_upt)

lemma inflection_point_no_zero:
  "Fin 0 \<notin> set (second_difference xs) \<Longrightarrow> inflection_point xs = None"
  by (simp add: inflection_point_def where_zero_empty)

lemma inflection_point_few: "length xs < 23 \<Longrightarrow> inflection_point xs = None"
proof -
  assume "length xs < 23"
  then have "length (second_difference xs) = 0"
    by (simp add: length_second_difference)
  then have "second_difference xs = []" by simp
  then show ?thesis by (simp add: inflection_point_no_zero)
qed

lemma low_count_pass:
  assumes "valid_rows molecules (s ! r) = Inr rows"
    and "inflection_point (rev (sort (map sum_list rows))) = None"
  shows "low_count lib molecules s r
       = Inr \<lparr>mask_ref = r, store_after = s, warnings = [low_count_warning]\<rparr>"
  using assms by (simp add: low_count_def)




lemma valid_rows_all_valid: "valid_rows m (replicate (length m) False) = Inr m"
  by (simp add: valid_rows_conv where_valid_all_valid map_nth)






lemma bind_Inr: "bind m f = Inr y \<Longrightarrow> \<exists>x. m = Inr x \<and> f x = Inr y"
  by (cases m) (auto simp: bind_def)

lemma bind_Inl: "bind m f = Inl e \<Longrightarrow> m = Inl e \<or> (\<exists>x. m = Inr x \<and> f x = Inl e)"
  by (cases m) (auto simp: bind_def)

lemma additional_loss_cells:
  "additional_loss new_filter old_filter m = Inr (c, ml) \<Longrightarrow>
     c = int (count_true new_filter) - int (count_true old_filter)"
  by (auto simp: additional_loss_def Let_def dest!: bind_Inr)

lemma stage_ok_keeps:
  "stage_ok s r res \<Longrightarrow> a < length s \<Longrightarrow> store_after res ! a = s ! a"
  by (simp add: stage_ok_def keeps_arrays_def)

lemma stage_ok_ref: "stage_ok s r res \<Longrightarrow> mask_ref res < length (store_after res)"
  by (simp add: stage_ok_def)

lemma run_filters_ledger:
  assumes "run_filters lib molecules_data molecules_columns reads_data t flag = Inr fr"
  shows "sum_list (map snd (cells_lost_ledger fr))
       = int (count_true (gene_invalid fr))
         - int (count_true (replicate (length molecules_data) False))"
proof -
  let ?s0 = "[replicate (length molecules_data) False]"
  from assms obtain r1 c1 m1 r2 c2 m2 mt_invalid s3 w3 cl3 ml3 r4 c4 m4 where
    st1: "low_count lib molecules_data ?s0 0 = Inr r1"
    and al1: "additional_loss (store_after r1 ! mask_ref r1) (store_after r1 ! 0) molecules_data
              = Inr (c1, m1)"
    and st2: "low_coverage lib molecules_data reads_data (store_after r1) (mask_ref r1) = Inr r2"
    and al2: "additional_loss (store_after r2 ! mask_ref r2) (store_after r2 ! mask_ref r1)
                molecules_data = Inr (c2, m2)"
    and mid: "(if flag
               then bind (high_mitochondrial_rna lib molecules_data molecules_columns
                            (store_after r2) (mask_ref r2) t) (\<lambda>r3.
                    bind (additional_loss (store_after r3 ! mask_ref r3)
                            (store_after r3 ! mask_ref r2) molecules_data) (\<lambda>(c3, m3).
                       Inr (mask_ref r3, store_after r3, warnings r3,
                            AList.update ''high_mt'' c3
                              (AList.update ''low_coverage'' c2 (AList.update ''low_count'' c1 [])),
                            AList.update ''high_mt'' m3
                              (AList.update ''low_coverage'' m2 (AList.update ''low_count'' m1 [])))))
               else Inr (mask_ref r2, store_after r2, [],
                         AList.update ''low_coverage'' c2 (AList.update ''low_count'' c1 []),
                         AList.update ''low_coverage'' m2 (AList.update ''low_count'' m1 [])))
              = Inr (mt_invalid, s3, w3, cl3, ml3)"
    and st4: "low_gene_abundance lib molecules_data s3 mt_invalid = Inr r4"
    and al4: "additional_loss (store_after r4 ! mask_ref r4) (store_after r4 ! mt_invalid)
                molecules_data = Inr (c4, m4)"
    and fr: "fr = \<lparr>gene_invalid = store_after r4 ! mask_ref r4,
                   molecules_lost_ledger = AList.update ''low_gene_detection'' m4 ml3,
                   cells_lost_ledger = AList.update ''low_gene_detection'' c4 cl3,
                   emitted = warnings r1 @ warnings r2 @ w3 @ warnings r4\<rparr>"
    unfolding run_filters_def Let_def
    by (fastforce dest!: bind_Inr)
  let ?cnt = "\<lambda>m. int (count_true m)"
  have ok1: "stage_ok ?s0 0 r1" by (rule low_count_ok [OF st1]) simp
  have ok2: "stage_ok (store_after r1) (mask_ref r1) r2"
    by (rule low_coverage_ok [OF st2]) (rule stage_ok_ref [OF ok1])
  have r2: "mask_ref r2 < length (store_after r2)" by (rule stage_ok_ref [OF ok2])
  have c1: "c1 = ?cnt (store_after r1 ! mask_ref r1) - ?cnt (replicate (length molecules_data) False)"
    using additional_loss_cells [OF al1] stage_ok_keeps [OF ok1, of 0] by simp
  have c2: "c2 = ?cnt (store_after r2 ! mask_ref r2) - ?cnt (store_after r1 ! mask_ref r1)"
    using additional_loss_cells [OF al2] stage_ok_keeps [OF ok2 stage_ok_ref [OF ok1]] by simp
  have mid': "mt_invalid < length s3 \<and>
              sum_list (map snd cl3) = ?cnt (s3 ! mt_invalid)
                 - ?cnt (replicate (length molecules_data) False)"
  proof (cases flag)
    case False
    with mid have "mt_invalid = mask_ref r2" "s3 = store_after r2"
      "cl3 = AList.update ''low_coverage'' c2 (AList.update ''low_count'' c1 [])"
      by simp_all
    then show ?thesis using r2 by (simp add: c1 c2)
  next
    case True
    with mid obtain r3 c3 m3 where
      st3: "high_mitochondrial_rna lib molecules_data molecules_columns
              (store_after r2) (mask_ref r2) t = Inr r3"
      and al3: "additional_loss (store_after r3 ! mask_ref r3) (store_after r3 ! mask_ref r2)
                  molecules_data = Inr (c3, m3)"
      and eqs: "mt_invalid = mask_ref r3" "s3 = store_after r3"
        "cl3 = AList.update ''high_mt'' c3
                 (AList.update ''low_coverage'' c2 (AList.update ''low_count'' c1 []))"
      by (fastforce dest!: bind_Inr)
    have ok3: "stage_ok (store_after r2) (mask_ref r2) r3"
      by (rule high_mitochondrial_rna_ok [OF st3 r2])
    have c3: "c3 = ?cnt (store_after r3 ! mask_ref r3) - ?cnt (store_after r2 ! mask_ref r2)"
      using additional_loss_cells [OF al3] stage_ok_keeps [OF ok3 r2] by simp
    show ?thesis using stage_ok_ref [OF ok3] by (simp add: eqs c1 c2 c3)
  qed
  then have mt: "mt_invalid < length s3" by simp
  have ok4: "stage_ok s3 mt_invalid r4" by (rule low_gene_abundance_ok [OF st4 mt])
  have c4: "c4 = ?cnt (store_after r4 ! mask_ref r4) - ?cnt (s3 ! mt_invalid)"
    using additional_loss_cells [OF al4] stage_ok_keeps [OF ok4 mt] by simp
  have keys: "fst ` set cl3 \<subseteq> {''low_count'', ''low_coverage'', ''high_mt''}"
    using mid by (cases flag) (auto dest!: bind_Inr)
  have "''low_gene_detection'' \<notin> fst ` set cl3"
    using keys by auto
  then have "AList.update ''low_gene_detection'' c4 cl3 = cl3 @ [(''low_gene_detection'', c4)]"
    by (induction cl3) auto
  then show ?thesis
    using mid' by (simp add: fr c4)
qed

lemma valid_rows_error: "valid_rows m msk = Inl e \<Longrightarrow> stage_error e"
  by (auto simp: valid_rows_def stage_error_def split: if_splits)

lemma bool_index_error: "bool_index legacy n idx = Inl e \<Longrightarrow> stage_error e"
  by (auto simp: bool_index_def stage_error_def split: if_splits)

lemma take_positions_error: "take_positions xs ps = Inl e \<Longrightarrow> stage_error e"
  by (auto simp: take_positions_def stage_error_def split: if_splits)

lemma set_true_error: "set_true arr ps = Inl e \<Longrightarrow> stage_error e"
  by (auto simp: set_true_def stage_error_def split: if_splits)

lemma bool_rows_error: "bool_rows m sel = Inl e \<Longrightarrow> stage_error e"
  by (auto simp: bool_rows_def stage_error_def split: if_splits)

lemmas index_errors =
  valid_rows_error bool_index_error take_positions_error set_true_error bool_rows_error

lemma low_count_error: "low_count lib molecules s r = Inl e \<Longrightarrow> stage_error e"
  by (auto simp: low_count_def Let_def dest: index_errors
      split: sum.splits option.splits prod.splits)

lemma low_coverage_error: "low_coverage lib molecules reads s r = Inl e \<Longrightarrow> stage_error e"
  by (auto simp: low_coverage_def Let_def stage_error_def [of LibraryError] dest: index_errors
      split: sum.splits option.splits prod.splits if_splits)

lemma high_mitochondrial_rna_error:
  "high_mitochondrial_rna lib molecules gene_ids s r t = Inl e \<Longrightarrow> stage_error e"
  by (auto simp: high_mitochondrial_rna_def Let_def stage_error_def [of IndexError]
      dest: index_errors split: sum.splits option.splits prod.splits if_splits)

lemma low_gene_abundance_error: "low_gene_abundance lib molecules s r = Inl e \<Longrightarrow> stage_error e"
  by (auto simp: low_gene_abundance_def Let_def stage_error_def [of LibraryError]
      dest: index_errors split: sum.splits option.splits prod.splits if_splits)

lemma additional_loss_error: "additional_loss n old m = Inl e \<Longrightarrow> stage_error e"
  by (auto simp: additional_loss_def Let_def dest!: bind_Inl dest: index_errors)

lemmas stage_errors =
  low_count_error low_coverage_error high_mitochondrial_rna_error low_gene_abundance_error
  additional_loss_error

lemma run_filters_error:
  assumes "run_filters lib molecules_data molecules_columns reads_data t flag = Inl e"
  shows "stage_error e"
  using assms unfolding run_filters_def Let_def
  by (auto dest!: bind_Inl dest: stage_errors split: if_splits)

lemma create_error_cases:
  assumes "create_filtered_dense_count_matrix lib molecules reads mt flag = Inl e"
    and "total_sum (data molecules) \<noteq> 0"
  shows "e \<noteq> EmptyMatrixError"
proof (cases mt)
  case (PyFloat t)
  show ?thesis
  proof (cases "fle (Fin 0) t \<and> fle t (Fin 1)")
    case True
    with assms PyFloat have "stage_error e"
      unfolding create_filtered_dense_count_matrix_def Let_def
      by (auto dest!: bind_Inl dest: run_filters_error index_errors)
    then show ?thesis by (auto simp: stage_error_def)
  next
    case False
    with assms PyFloat show ?thesis
      by (auto simp: create_filtered_dense_count_matrix_def)
  qed
qed (use assms in \<open>auto simp: create_filtered_dense_count_matrix_def\<close>)

lemma create_empty_iff:
  "(create_filtered_dense_count_matrix lib molecules reads mt flag = Inl EmptyMatrixError)
     = (total_sum (data molecules) = 0)"
proof
  assume "create_filtered_dense_count_matrix lib molecules reads mt flag = Inl EmptyMatrixError"
  then show "total_sum (data molecules) = 0"
    using create_error_cases by blast
next
  assume "total_sum (data molecules) = 0"
  then show "create_filtered_dense_count_matrix lib molecules reads mt flag = Inl EmptyMatrixError"
    by (simp add: create_filtered_dense_count_matrix_def)
qed

lemma create_bad_parameter:
  assumes "total_sum (data molecules) \<noteq> 0"
    and "\<not> is_float_in_unit_interval mt"
  shows "create_filtered_dense_count_matrix lib molecules reads mt flag
       = (case mt of PyFloat t \<Rightarrow> Inl ValueError | _ \<Rightarrow> Inl TypeError)"
  using assms
  by (cases mt) (auto simp: create_filtered_dense_count_matrix_def is_float_in_unit_interval_def)

subsection \<open>The stages on the example inputs\<close>

lemma low_count_few:
  assumes "length molecules = length (s ! r)" and "length (where_valid (s ! r)) < 23"
  shows "low_count lib molecules s r
       = Inr \<lparr>mask_ref = r, store_after = s, warnings = [low_count_warning]\<rparr>"
proof -
  have rows: "valid_rows molecules (s ! r) = Inr (map ((!) molecules) (where_valid (s ! r)))"
    by (rule valid_rows_conv [OF assms(1)])
  show ?thesis
    by (rule low_count_pass [OF rows]) (rule inflection_point_few, simp add: assms(2))
qed

lemma low_coverage_few:
  assumes "length molecules = length (s ! r)" and "length reads = length (s ! r)"
    and "length (where_valid (s ! r)) < 10"
  shows "low_coverage lib molecules reads s r
       = Inr \<lparr>mask_ref = r, store_after = s, warnings = [low_coverage_warning]\<rparr>"
  using assms by (simp add: low_coverage_def valid_rows_conv)

lemma sorted_example: "rev (sort example_counts) = example_counts"
  by (simp add: example_counts_def eval_nat_numeral)

lemma second_difference_example:
  "second_difference example_counts = [Fin (- (1 / 3200)), Fin 0, Fin 0, Fin 0]"
  by (simp add: example_counts_def second_difference_def cumsum_def rolling_mean_def
      fsum_def fsub_def of_count_def eval_nat_numeral)

lemma inflection_point_example: "inflection_point example_counts = Some 0"
  by (simp add: inflection_point_def second_difference_example where_zero_def)

lemma valid_rows_example:
  "valid_rows example_molecules (replicate 26 False) = Inr example_molecules"
  using valid_rows_all_valid [of example_molecules]
  by (simp add: example_molecules_def example_counts_def)

lemma sums_example: "map sum_list example_molecules = example_counts"
  by (simp add: example_molecules_def comp_def)

lemma low_count_example:
  "low_count example_library example_molecules [replicate 26 False] 0
     = Inr \<lparr>mask_ref = 1,
            store_after = [replicate 26 False, False # replicate 25 True],
            warnings = []\<rparr>"
proof -
  have idx: "map (\<lambda>m. m < 4) example_counts = False # replicate 25 True"
    by (simp add: example_counts_def eval_nat_numeral)
  have ps: "true_positions (False # replicate 25 True) = [Suc 0..<26]"
    by (simp add: true_positions_def eval_nat_numeral)
  have sel: "bool_index (legacy_bool_index example_library) 26
               (map (\<lambda>m. m < 4) example_counts) = Inr [Suc 0..<26]"
    by (simp add: idx bool_index_def ps)
  have mark: "set_true (replicate 26 False) [Suc 0..<26] = Inr (False # replicate 25 True)"
    by (simp add: set_true_def eval_nat_numeral)
  have v: "example_counts ! 0 = 4"
    by (simp add: example_counts_def)
  show ?thesis
    by (simp add: low_count_def valid_rows_example sums_example inflection_point_example
        sorted_example np_copy_def v sel mark)
qed



lemma high_mt_example:
  "high_mitochondrial_rna example_library mt_molecules_example mt_genes_example
     [[False, False, False, True]] 0 (Fin (1 / 5))
   = Inr \<lparr>mask_ref = 1,
          store_after = [[False, False, False, True], [False, True, False, True]],
          warnings = []\<rparr>"
  by (simp add: high_mitochondrial_rna_def mt_molecules_example_def mt_genes_example_def
      valid_rows_def startswith_def select_cols_def of_count_def fgt_def np_copy_def
      where_valid_def bool_index_def true_positions_def take_positions_def set_true_def
      eval_nat_numeral Let_def)

lemma low_coverage_example:
  "low_coverage example_library coverage_molecules_example coverage_reads_example
     [True # replicate 10 False] 0
   = Inr \<lparr>mask_ref = 1,
          store_after = [True # replicate 10 False,
            [True, False, True, False, True, False, True, False, True, False, True]],
          warnings = []\<rparr>"
  by (simp add: low_coverage_def coverage_molecules_example_def coverage_reads_example_def
      valid_rows_def of_count_def example_library_def argmin2_def np_copy_def
      where_valid_def take_positions_def set_true_def eval_nat_numeral Let_def)

lemma low_gene_example:
  "low_gene_abundance example_library gene_molecules_example [[False, False, True]] 0
   = Inr \<lparr>mask_ref = 1,
          store_after = [[False, False, True], [True, False, True]],
          warnings = []\<rparr>"
  by (simp add: low_gene_abundance_def gene_molecules_example_def
      valid_rows_def example_library_def np_copy_def getnnz_def np_log10_def fsub_def fgt_def
      where_valid_def bool_index_def true_positions_def take_positions_def set_true_def
      eval_nat_numeral Let_def)

lemma where_valid_4: "where_valid [False, False, False, False] = [0, 1, 2, 3]"
  by (simp add: where_valid_def eval_nat_numeral)

lemma frame_low_count:
  "low_count example_library (data molecules_frame_example) [[False, False, False, False]] 0
   = Inr \<lparr>mask_ref = 0, store_after = [[False, False, False, False]],
          warnings = [low_count_warning]\<rparr>"
  by (rule low_count_few) (simp_all add: molecules_frame_example_def where_valid_4)

lemma frame_low_coverage:
  "low_coverage example_library (data molecules_frame_example) (data reads_frame_example)
     [[False, False, False, False]] 0
   = Inr \<lparr>mask_ref = 0, store_after = [[False, False, False, False]],
          warnings = [low_coverage_warning]\<rparr>"
  by (rule low_coverage_few)
     (simp_all add: molecules_frame_example_def reads_frame_example_def where_valid_4)

lemma frame_high_mt:
  "high_mitochondrial_rna example_library (data molecules_frame_example)
     (columns molecules_frame_example) [[False, False, False, False]] 0 (Fin (1 / 5))
   = Inr \<lparr>mask_ref = 1,
          store_after = [[False, False, False, False], [False, True, False, False]],
          warnings = []\<rparr>"
  by (simp add: high_mitochondrial_rna_def molecules_frame_example_def
      valid_rows_def startswith_def select_cols_def of_count_def fgt_def np_copy_def
      where_valid_def bool_index_def true_positions_def take_positions_def set_true_def
      eval_nat_numeral Let_def)

lemma frame_low_gene:
  "low_gene_abundance example_library (data molecules_frame_example)
     [[False, False, False, False], [False, True, False, False]] (Suc 0)
   = Inr \<lparr>mask_ref = 2,
          store_after = [[False, False, False, False], [False, True, False, False],
                         [True, True, False, False]],
          warnings = []\<rparr>"
  by (simp add: low_gene_abundance_def molecules_frame_example_def
      valid_rows_def example_library_def np_copy_def getnnz_def np_log10_def fsub_def fgt_def
      where_valid_def bool_index_def true_positions_def take_positions_def set_true_def
      eval_nat_numeral Let_def)

lemma frame_low_gene_unfiltered:
  "low_gene_abundance example_library (data molecules_frame_example)
     [[False, False, False, False]] 0
   = Inr \<lparr>mask_ref = 1,
          store_after = [[False, False, False, False], [True, False, False, False]],
          warnings = []\<rparr>"
  by (simp add: low_gene_abundance_def molecules_frame_example_def
      valid_rows_def example_library_def np_copy_def getnnz_def np_log10_def fsub_def fgt_def
      where_valid_def bool_index_def true_positions_def take_positions_def set_true_def
      eval_nat_numeral Let_def)

lemma frame_additional_loss:
  "length m1 = 4 \<Longrightarrow> length m2 = 4 \<Longrightarrow>
   additional_loss m1 m2 (data molecules_frame_example)
     = Inr (int (count_true m1) - int (count_true m2),
            int (total_sum (select_cols (data molecules_frame_example) m1))
              - int (total_sum (select_cols (data molecules_frame_example) m2)))"
  by (simp add: additional_loss_def bind_def bool_rows_def Let_def select_cols_def
      molecules_frame_example_def)

lemma frame_run_filters:
  "run_filters example_library (data molecules_frame_example)
     (columns molecules_frame_example) (data reads_frame_example) (Fin (1 / 5)) True
   = Inr \<lparr>gene_invalid = [True, True, False, False],
          molecules_lost_ledger =
            [(''low_count'', 0), (''low_coverage'', 0), (''high_mt'', 4),
             (''low_gene_detection'', 5)],
          cells_lost_ledger =
            [(''low_count'', 0), (''low_coverage'', 0), (''high_mt'', 1),
             (''low_gene_detection'', 1)],
          emitted = [low_count_warning, low_coverage_warning]\<rparr>"
proof -
  have len: "length (data molecules_frame_example) = 4"
    by (simp add: molecules_frame_example_def)
  have zeros: "replicate 4 False = [False, False, False, False]"
    by (simp add: eval_nat_numeral)
  have sums: "select_cols (data molecules_frame_example) [False, False, False, False] = []"
    "select_cols (data molecules_frame_example) [False, True, False, False] = [[1, 3]]"
    "select_cols (data molecules_frame_example) [True, True, False, False] = [[1, 4], [1, 3]]"
    by (simp_all add: select_cols_def molecules_frame_example_def)
  show ?thesis
    unfolding run_filters_def Let_def len zeros
    by (simp add: frame_low_count frame_low_coverage frame_high_mt frame_low_gene bind_def
        frame_additional_loss sums count_true_def total_sum_def)
qed

lemma frame_create:
  "create_filtered_dense_count_matrix example_library molecules_frame_example
     reads_frame_example (PyFloat (Fin (1 / 5))) True
   = Inr \<lparr>dense = [[5], [2]],
          dense_index = [''cell2'', ''cell3''],
          dense_columns = [''ACTB''],
          total_molecules = 16,
          molecules_lost =
            [(''low_count'', 0), (''low_coverage'', 0), (''high_mt'', 4),
             (''low_gene_detection'', 5)],
          cells_lost =
            [(''low_count'', 0), (''low_coverage'', 0), (''high_mt'', 1),
             (''low_gene_detection'', 1)],
          cell_description = ()\<rparr>"
proof -
  have nonempty: "total_sum (data molecules_frame_example) = 16"
    by (simp add: total_sum_def molecules_frame_example_def)
  have rows: "valid_rows (data molecules_frame_example) [True, True, False, False]
            = Inr [[0, 5], [0, 2]]"
    by (simp add: valid_rows_def molecules_frame_example_def)
  have ids: "valid_rows (index molecules_frame_example) [True, True, False, False]
           = Inr [''cell2'', ''cell3'']"
    by (simp add: valid_rows_def molecules_frame_example_def)
  have cols: "columns molecules_frame_example = [''MT-ND1'', ''ACTB'']"
    by (simp add: molecules_frame_example_def)
  show ?thesis
    unfolding create_filtered_dense_count_matrix_def Let_def
    by (simp add: nonempty fle_def frame_run_filters bind_def rows ids)
       (simp add: cols select_cols_def example_library_def eval_nat_numeral)
qed


lemma high_mitochondrial_rna_fresh:
  assumes "high_mitochondrial_rna lib molecules gene_ids s r t = Inr res"
  shows "mask_ref res = length s"
  using assms
  by (auto simp: high_mitochondrial_rna_def Let_def np_copy_def
      split: sum.splits prod.splits if_splits)





section \<open>The claims\<close>

text \<open>
  C1. Whenever one of the four stages returns a mask, the mask is as long as the input
  mask and is True wherever the input mask is: no stage makes an excluded cell valid again.
\<close>

theorem stages_monotonic:
  assumes "is_invalid < length s"
  shows "(\<forall>res. low_count lib molecules s is_invalid = Inr res \<longrightarrow>
            mask_superset (store_after res ! mask_ref res) (s ! is_invalid)) \<and>
         (\<forall>res. low_coverage lib molecules reads s is_invalid = Inr res \<longrightarrow>
            mask_superset (store_after res ! mask_ref res) (s ! is_invalid)) \<and>
         (\<forall>res. high_mitochondrial_rna lib molecules gene_ids s is_invalid max_mt_content
                  = Inr res \<longrightarrow>
            mask_superset (store_after res ! mask_ref res) (s ! is_invalid)) \<and>
         (\<forall>res. low_gene_abundance lib molecules s is_invalid = Inr res \<longrightarrow>
            mask_superset (store_after res ! mask_ref res) (s ! is_invalid))"
proof (intro conjI allI impI)
  fix res assume "low_count lib molecules s is_invalid = Inr res"
  from low_count_ok [OF this assms]
  show "mask_superset (store_after res ! mask_ref res) (s ! is_invalid)"
    by (simp add: stage_ok_def)
next
  fix res assume "low_coverage lib molecules reads s is_invalid = Inr res"
  from low_coverage_ok [OF this assms]
  show "mask_superset (store_after res ! mask_ref res) (s ! is_invalid)"
    by (simp add: stage_ok_def)
next
  fix res
  assume "high_mitochondrial_rna lib molecules gene_ids s is_invalid max_mt_content = Inr res"
  from high_mitochondrial_rna_ok [OF this assms]
  show "mask_superset (store_after res ! mask_ref res) (s ! is_invalid)"
    by (simp add: stage_ok_def)
next
  fix res assume "low_gene_abundance lib molecules s is_invalid = Inr res"
  from low_gene_abundance_ok [OF this assms]
  show "mask_superset (store_after res ! mask_ref res) (s ! is_invalid)"
    by (simp add: stage_ok_def)
qed

theorem stages_monotonic_witness:
  "low_count example_library example_molecules [replicate 26 False] 0
     = Inr \<lparr>mask_ref = 1,
            store_after = [replicate 26 False, False # replicate 25 True],
            warnings = []\<rparr> \<and>
   mask_superset (False # replicate 25 True) (replicate 26 False) \<and>
   low_coverage example_library coverage_molecules_example coverage_reads_example
     [True # replicate 10 False] 0
     = Inr \<lparr>mask_ref = 1,
            store_after = [True # replicate 10 False,
              [True, False, True, False, True, False, True, False, True, False, True]],
            warnings = []\<rparr> \<and>
   mask_superset [True, False, True, False, True, False, True, False, True, False, True]
     (True # replicate 10 False) \<and>
   high_mitochondrial_rna example_library mt_molecules_example mt_genes_example
     [[False, False, False, True]] 0 (Fin (1 / 5))
     = Inr \<lparr>mask_ref = 1,
            store_after = [[False, False, False, True], [False, True, False, True]],
            warnings = []\<rparr> \<and>
   mask_superset [False, True, False, True] [False, False, False, True] \<and>
   low_gene_abundance example_library gene_molecules_example [[False, False, True]] 0
     = Inr \<lparr>mask_ref = 1,
            store_after = [[False, False, True], [True, False, True]],
            warnings = []\<rparr> \<and>
   mask_superset [True, False, True] [False, False, True]"
  using
    stages_monotonic [where is_invalid = 0 and s = "[replicate 26 False]"
      and lib = example_library and molecules = example_molecules]
    stages_monotonic [where is_invalid = 0 and s = "[True # replicate 10 False]"
      and lib = example_library and molecules = coverage_molecules_example
      and reads = coverage_reads_example]
    stages_monotonic [where is_invalid = 0 and s = "[[False, False, False, True]]"
      and lib = example_library and molecules = mt_molecules_example
      and gene_ids = mt_genes_example and max_mt_content = "Fin (1 / 5)"]
    stages_monotonic [where is_invalid = 0 and s = "[[False, False, True]]"
      and lib = example_library and molecules = gene_molecules_example]
  by (simp add: low_count_example low_coverage_example high_mt_example low_gene_example)






text \<open>
  C4. When \<open>create_filtered_dense_count_matrix\<close> returns, the entries of its \<open>cells_lost\<close>
  ledger are those of the run of the stages, and they add up to the number of excluded
  cells of the final mask minus the number of excluded cells of the initial mask
  \<open>np.zeros(n)\<close>; each entry is the difference that \<open>additional_loss\<close> computes.
\<close>

theorem cells_lost_ledger_consistent:
  assumes "create_filtered_dense_count_matrix lib molecules reads max_mt_content
             filter_mitochondrial_rna = Inr out"
  shows "\<exists>t fr. max_mt_content = PyFloat t \<and>
           run_filters lib (data molecules) (columns molecules) (data reads) t
             filter_mitochondrial_rna = Inr fr \<and>
           cells_lost out = cells_lost_ledger fr \<and>
           sum_list (map snd (cells_lost out))
             = int (count_true (gene_invalid fr))
               - int (count_true (replicate (length (data molecules)) False)) \<and>
           (\<forall>new_filter old_filter m c ml.
              additional_loss new_filter old_filter m = Inr (c, ml) \<longrightarrow>
              c = int (count_true new_filter) - int (count_true old_filter))"
proof -
  from assms obtain t where t: "max_mt_content = PyFloat t"
    by (cases max_mt_content)
       (auto simp: create_filtered_dense_count_matrix_def split: if_splits)
  from assms t obtain fr where
    fr: "run_filters lib (data molecules) (columns molecules) (data reads) t
           filter_mitochondrial_rna = Inr fr"
    and cl: "cells_lost out = cells_lost_ledger fr"
    unfolding create_filtered_dense_count_matrix_def Let_def
    by (auto split: if_splits dest!: bind_Inr)
  from run_filters_ledger [OF fr] cl t fr additional_loss_cells
  show ?thesis by auto
qed

theorem cells_lost_ledger_consistent_witness:
  "create_filtered_dense_count_matrix example_library molecules_frame_example
     reads_frame_example (PyFloat (Fin (1 / 5))) True
   = Inr \<lparr>dense = [[5], [2]],
          dense_index = [''cell2'', ''cell3''],
          dense_columns = [''ACTB''],
          total_molecules = 16,
          molecules_lost =
            [(''low_count'', 0), (''low_coverage'', 0), (''high_mt'', 4),
             (''low_gene_detection'', 5)],
          cells_lost =
            [(''low_count'', 0), (''low_coverage'', 0), (''high_mt'', 1),
             (''low_gene_detection'', 1)],
          cell_description = ()\<rparr> \<and>
   run_filters example_library (data molecules_frame_example)
     (columns molecules_frame_example) (data reads_frame_example) (Fin (1 / 5)) True
   = Inr \<lparr>gene_invalid = [True, True, False, False],
          molecules_lost_ledger =
            [(''low_count'', 0), (''low_coverage'', 0), (''high_mt'', 4),
             (''low_gene_detection'', 5)],
          cells_lost_ledger =
            [(''low_count'', 0), (''low_coverage'', 0), (''high_mt'', 1),
             (''low_gene_detection'', 1)],
          emitted = [low_count_warning, low_coverage_warning]\<rparr> \<and>
   sum_list (map snd [(''low_count'', 0), (''low_coverage'', 0), (''high_mt'', 1),
                      (''low_gene_detection'', 1::int)]) = 2 \<and>
   int (count_true [True, True, False, False])
     - int (count_true (replicate (length (data molecules_frame_example)) False)) = 2"
proof -
  have zeros: "replicate (length (data molecules_frame_example)) False
             = [False, False, False, False]"
    by (simp add: molecules_frame_example_def)
  show ?thesis
    using cells_lost_ledger_consistent [OF frame_create]
    by (simp add: frame_create frame_run_filters zeros count_true_def)
qed

text \<open>
  C5. \<open>create_filtered_dense_count_matrix\<close> raises EmptyMatrixError exactly when the
  entries of the molecule matrix sum to zero. The check comes first: the result is then
  EmptyMatrixError whatever the reads, the parameters and the libraries are, so that no
  stage ran and no ledger entry was made; with a positive sum, no later step raises this
  error.
\<close>

theorem empty_matrix_error:
  "(total_sum (data molecules) = 0 \<longrightarrow>
      create_filtered_dense_count_matrix lib molecules reads max_mt_content
        filter_mitochondrial_rna = Inl EmptyMatrixError) \<and>
   (0 < total_sum (data molecules) \<longrightarrow>
      create_filtered_dense_count_matrix lib molecules reads max_mt_content
        filter_mitochondrial_rna \<noteq> Inl EmptyMatrixError)"
  using create_empty_iff [of lib molecules reads max_mt_content filter_mitochondrial_rna]
  by auto

theorem empty_matrix_error_witness:
  "total_sum (data empty_frame_example) = 0 \<and>
   create_filtered_dense_count_matrix example_library empty_frame_example
     reads_frame_example (PyInt 5) True = Inl EmptyMatrixError \<and>
   0 < total_sum (data molecules_frame_example) \<and>
   create_filtered_dense_count_matrix example_library molecules_frame_example
     reads_frame_example (PyFloat (Fin (1 / 5))) True \<noteq> Inl EmptyMatrixError"
proof -
  have e: "total_sum (data empty_frame_example) = 0"
    by (simp add: total_sum_def empty_frame_example_def)
  have n: "0 < total_sum (data molecules_frame_example)"
    by (simp add: total_sum_def molecules_frame_example_def)
  show ?thesis
    using e n
      empty_matrix_error [of empty_frame_example example_library reads_frame_example
        "PyInt 5" True]
      empty_matrix_error [of molecules_frame_example example_library reads_frame_example
        "PyFloat (Fin (1 / 5))" True]
    by simp
qed



text \<open>
  C7. With fewer than 23 valid cells, so with fewer than 20, \<open>low_count\<close> raises nothing:
  it returns the input mask itself, unchanged, and warns. (The second difference of n
  values has n - 22 entries.)
\<close>

theorem low_count_few_cells_pass_through:
  assumes "length molecules = length (s ! is_invalid)"
    and "length (where_valid (s ! is_invalid)) < 23"
  shows "low_count lib molecules s is_invalid
       = Inr \<lparr>mask_ref = is_invalid, store_after = s, warnings = [low_count_warning]\<rparr>"
  by (rule low_count_few [OF assms])

theorem low_count_few_cells_pass_through_witness:
  "length (replicate 21 [3::nat]) = length ([True # True # replicate 19 False] ! 0) \<and>
   length (where_valid ([True # True # replicate 19 False] ! 0)) = 19 \<and>
   low_count example_library (replicate 21 [3]) [True # True # replicate 19 False] 0
     = Inr \<lparr>mask_ref = 0, store_after = [True # True # replicate 19 False],
            warnings = [low_count_warning]\<rparr>"
proof -
  have v: "length (where_valid ([True # True # replicate 19 False] ! 0)) = 19"
    by (simp add: where_valid_def eval_nat_numeral)
  have l: "length (replicate 21 [3::nat]) = length ([True # True # replicate 19 False] ! 0)"
    by simp
  show ?thesis
    using low_count_few_cells_pass_through [OF l, of example_library] v by simp
qed

text \<open>
  C8, as stated, fails: the check for an empty matrix comes before the checks of
  \<open>max_mt_content\<close>, so that a call with an all-zero matrix and the integer 5 for
  \<open>max_mt_content\<close> fails with EmptyMatrixError, not with a bad-parameter error.
\<close>

theorem bad_parameter_counterexample:
  "\<not> is_float_in_unit_interval (PyInt 5) \<and>
   create_filtered_dense_count_matrix example_library empty_frame_example
     reads_frame_example (PyInt 5) True = Inl EmptyMatrixError"
  by (simp add: is_float_in_unit_interval_def create_filtered_dense_count_matrix_def
      total_sum_def empty_frame_example_def)

text \<open>
  C8, amended. When the entries of the molecule matrix do not sum to zero and
  \<open>max_mt_content\<close> is not a float in the interval from 0 to 1, the call fails with
  TypeError (not a float) or ValueError (a float outside the interval), whether the
  mitochondrial stage is enabled or not.
\<close>

theorem bad_parameter_error:
  assumes "0 < total_sum (data molecules)"
    and "\<not> is_float_in_unit_interval max_mt_content"
  shows "create_filtered_dense_count_matrix lib molecules reads max_mt_content
           filter_mitochondrial_rna
       = (case max_mt_content of PyFloat t \<Rightarrow> Inl ValueError | _ \<Rightarrow> Inl TypeError)"
  using assms by (intro create_bad_parameter) simp_all

theorem bad_parameter_error_witness:
  "0 < total_sum (data molecules_frame_example) \<and>
   \<not> is_float_in_unit_interval (PyInt 1) \<and>
   create_filtered_dense_count_matrix example_library molecules_frame_example
     reads_frame_example (PyInt 1) False = Inl TypeError \<and>
   \<not> is_float_in_unit_interval (PyFloat (Fin (3 / 2))) \<and>
   create_filtered_dense_count_matrix example_library molecules_frame_example
     reads_frame_example (PyFloat (Fin (3 / 2))) False = Inl ValueError \<and>
   \<not> is_float_in_unit_interval (PyFloat NaN) \<and>
   create_filtered_dense_count_matrix example_library molecules_frame_example
     reads_frame_example (PyFloat NaN) True = Inl ValueError"
proof -
  have n: "0 < total_sum (data molecules_frame_example)"
    by (simp add: total_sum_def molecules_frame_example_def)
  have bad: "\<not> is_float_in_unit_interval (PyInt 1)"
    "\<not> is_float_in_unit_interval (PyFloat (Fin (3 / 2)))"
    "\<not> is_float_in_unit_interval (PyFloat NaN)"
    by (simp_all add: is_float_in_unit_interval_def fle_def)
  show ?thesis
    using n bad
      bad_parameter_error [OF n bad(1), of example_library reads_frame_example False]
      bad_parameter_error [OF n bad(2), of example_library reads_frame_example False]
      bad_parameter_error [OF n bad(3), of example_library reads_frame_example True]
    by simp
qed

text \<open>
  C9, as stated, fails: on its pass-through branch \<open>low_count\<close> returns the object it was
  given. Here the input mask is the array at address 0, and so is the result.
\<close>

theorem stage_alias_counterexample:
  "low_count example_library [[1]] [[False]] 0
     = Inr \<lparr>mask_ref = 0, store_after = [[False]], warnings = [low_count_warning]\<rparr>"
  by (rule low_count_few) (simp_all add: where_valid_def)

text \<open>
  C9, amended. A stage that returns leaves every array of the caller, the input mask
  among them, as it was. Its result is either a newly allocated array or, on a
  pass-through branch, the input mask itself in an unchanged store;
  \<open>high_mitochondrial_rna\<close> always returns a new array.
\<close>

theorem stages_keep_input_mask:
  assumes "is_invalid < length s"
  shows "(\<forall>res. low_count lib molecules s is_invalid = Inr res \<longrightarrow>
            keeps_arrays s (store_after res) \<and>
            (mask_ref res = is_invalid \<and> store_after res = s \<or>
             mask_ref res = length s \<and> length (store_after res) = Suc (length s))) \<and>
         (\<forall>res. low_coverage lib molecules reads s is_invalid = Inr res \<longrightarrow>
            keeps_arrays s (store_after res) \<and>
            (mask_ref res = is_invalid \<and> store_after res = s \<or>
             mask_ref res = length s \<and> length (store_after res) = Suc (length s))) \<and>
         (\<forall>res. high_mitochondrial_rna lib molecules gene_ids s is_invalid max_mt_content
                  = Inr res \<longrightarrow>
            keeps_arrays s (store_after res) \<and>
            mask_ref res = length s \<and> length (store_after res) = Suc (length s)) \<and>
         (\<forall>res. low_gene_abundance lib molecules s is_invalid = Inr res \<longrightarrow>
            keeps_arrays s (store_after res) \<and>
            (mask_ref res = is_invalid \<and> store_after res = s \<or>
             mask_ref res = length s \<and> length (store_after res) = Suc (length s)))"
proof (intro conjI allI impI)
  fix res assume ret: "low_count lib molecules s is_invalid = Inr res"
  from low_count_ok [OF ret assms]
  show "keeps_arrays s (store_after res)"
    and "mask_ref res = is_invalid \<and> store_after res = s \<or>
         mask_ref res = length s \<and> length (store_after res) = Suc (length s)"
    by (simp_all add: stage_ok_def)
next
  fix res assume ret: "low_coverage lib molecules reads s is_invalid = Inr res"
  from low_coverage_ok [OF ret assms]
  show "keeps_arrays s (store_after res)"
    and "mask_ref res = is_invalid \<and> store_after res = s \<or>
         mask_ref res = length s \<and> length (store_after res) = Suc (length s)"
    by (simp_all add: stage_ok_def)
next
  fix res
  assume ret: "high_mitochondrial_rna lib molecules gene_ids s is_invalid max_mt_content
                 = Inr res"
  from high_mitochondrial_rna_ok [OF ret assms]
  show "keeps_arrays s (store_after res)"
    by (simp add: stage_ok_def)
  show "mask_ref res = length s"
    by (rule high_mitochondrial_rna_fresh [OF ret])
  from high_mitochondrial_rna_ok [OF ret assms] high_mitochondrial_rna_fresh [OF ret] assms
  show "length (store_after res) = Suc (length s)"
    by (auto simp: stage_ok_def)
next
  fix res assume ret: "low_gene_abundance lib molecules s is_invalid = Inr res"
  from low_gene_abundance_ok [OF ret assms]
  show "keeps_arrays s (store_after res)"
    and "mask_ref res = is_invalid \<and> store_after res = s \<or>
         mask_ref res = length s \<and> length (store_after res) = Suc (length s)"
    by (simp_all add: stage_ok_def)
qed

theorem stages_keep_input_mask_witness:
  "low_count example_library example_molecules [replicate 26 False] 0
     = Inr \<lparr>mask_ref = 1,
            store_after = [replicate 26 False, False # replicate 25 True],
            warnings = []\<rparr> \<and>
   keeps_arrays [replicate 26 False] [replicate 26 False, False # replicate 25 True] \<and>
   low_coverage example_library (data molecules_frame_example) (data reads_frame_example)
     [[False, False, False, False]] 0
     = Inr \<lparr>mask_ref = 0, store_after = [[False, False, False, False]],
            warnings = [low_coverage_warning]\<rparr> \<and>
   keeps_arrays [[False, False, False, False]] [[False, False, False, False]] \<and>
   high_mitochondrial_rna example_library mt_molecules_example mt_genes_example
     [[False, False, False, True]] 0 (Fin (1 / 5))
     = Inr \<lparr>mask_ref = 1,
            store_after = [[False, False, False, True], [False, True, False, True]],
            warnings = []\<rparr> \<and>
   keeps_arrays [[False, False, False, True]]
     [[False, False, False, True], [False, True, False, True]] \<and>
   low_gene_abundance example_library gene_molecules_example [[False, False, True]] 0
     = Inr \<lparr>mask_ref = 1,
            store_after = [[False, False, True], [True, False, True]],
            warnings = []\<rparr> \<and>
   keeps_arrays [[False, False, True]] [[False, False, True], [True, False, True]]"
proof -
  have ok: "0 < length [x]" for x :: mask
    by simp
  from stages_keep_input_mask [OF ok, of example_library example_molecules
         "replicate 26 False"]
  have a: "keeps_arrays [replicate 26 False]
             [replicate 26 False, False # replicate 25 True]"
    by (simp add: low_count_example)
  from stages_keep_input_mask [OF ok, of example_library "data molecules_frame_example"
         "[False, False, False, False]" "data reads_frame_example"]
  have b: "keeps_arrays [[False, False, False, False]] [[False, False, False, False]]"
    by (simp add: frame_low_coverage)
  from stages_keep_input_mask [OF ok, of example_library mt_molecules_example
         "[False, False, False, True]" _ mt_genes_example "Fin (1 / 5)"]
  have c: "keeps_arrays [[False, False, False, True]]
             [[False, False, False, True], [False, True, False, True]]"
    by (simp add: high_mt_example)
  from stages_keep_input_mask [OF ok, of example_library gene_molecules_example
         "[False, False, True]"]
  have d: "keeps_arrays [[False, False, True]] [[False, False, True], [True, False, True]]"
    by (simp add: low_gene_example)
  show ?thesis
    by (simp only: low_count_example frame_low_coverage high_mt_example low_gene_example
        a b c d simp_thms)
qed



end
